theory Spec2Isabelle
  imports Main "HOL-Library.AList"
begin

section \<open>Data model\<close>

text \<open>
  The \<^verbatim>\<open>Question\<close> interface shared by the three scripted hooks
  (\<^verbatim>\<open>useVoiceChatv1.ts\<close>, \<^verbatim>\<open>useVoiceChatv2.ts\<close> and the third unit of
  \<^verbatim>\<open>useVoice.ts\<close>).  The field \<^verbatim>\<open>id\<close> is called \<open>qid\<close> here because \<open>id\<close> is the
  identity function of HOL.  Numbers are integers; an empty \<open>user_answer\<close> is the
  falsy string of the source.
\<close>

record question =
  qid :: string
  agent_question :: string
  user_answer :: string
  timeout :: int
  order :: int
  weight :: int

subsection \<open>Deduplication, ordering and the current question\<close>

text \<open>
  \<^verbatim>\<open>const seen = new Set(); const unique = questions.filter((q) => {
     if (seen.has(q.id)) return false; seen.add(q.id); return true; });\<close>
  The filter callback mutates \<open>seen\<close> while it runs over the list from the left, so the
  set is threaded through the recursion.
\<close>

fun unique :: "string set \<Rightarrow> question list \<Rightarrow> question list" where
  "unique seen [] = []"
| "unique seen (q # qs) =
     (if qid q \<in> seen then unique seen qs else q # unique (insert (qid q) seen) qs)"

text \<open>
  \<^verbatim>\<open>const sorted = unique.sort((a, b) => a.order - b.order);\<close>
  \<^verbatim>\<open>Array.prototype.sort\<close> is stable, and so is insertion sort by key.
\<close>

definition sorted_questions :: "question list \<Rightarrow> question list" where
  "sorted_questions questions = sort_key order (unique {} questions)"

text \<open>\<^verbatim>\<open>const currentQuestion = dedupedQuestions.find((q) => !q.user_answer);\<close>\<close>

definition currentQuestion :: "question list \<Rightarrow> question option" where
  "currentQuestion dedupedQuestions = find (\<lambda>q. user_answer q = []) dedupedQuestions"

section \<open>The scripted hooks as an event-driven state machine\<close>

subsection \<open>Browser environment: timers, recognizers, synthesizer\<close>

text \<open>
  A timer callback, as data.  The three closures handed to \<^verbatim>\<open>setTimeout\<close> by the
  scripted hooks are: the silence timer (\<^verbatim>\<open>recognition.stop()\<close> of the attempt that
  armed it), the retry (\<^verbatim>\<open>tryListening(question, attempt + 1)\<close>) and the hard deadline
  of \<^verbatim>\<open>speakAgentQuestion\<close>.
\<close>

datatype timer_action =
    SilenceStop nat
  | RetryListening question nat
  | MaxTimeout question

text \<open>
  One \<^verbatim>\<open>SpeechRecognition\<close> object created by \<^verbatim>\<open>tryListening\<close>, with the
  variables its handlers close over (\<open>question\<close>, \<open>attempt\<close>, \<open>listeningStartTime\<close>).
  \<open>stop_called\<close> records \<^verbatim>\<open>recognition.stop()\<close>; \<open>rec_ended\<close> records that the browser
  has delivered the \<^verbatim>\<open>end\<close> event.  A recognizer is addressed by its index in the
  list of the objects created so far.
\<close>

record recognition =
  rec_question :: question
  rec_attempt :: nat
  listeningStartTime :: int
  stop_called :: bool
  rec_ended :: bool

text \<open>
  The refs and the state of the hook, followed by the environment it acts on.
  \<^verbatim>\<open>useVoiceChatv2.ts\<close> has no \<open>questionMaxTimeoutRef\<close>, \<open>questionStartTimeRef\<close> or
  \<open>retryHandledRef\<close>; its functions below leave these fields alone.
  \<open>questionMaxTimeoutRef\<close> and \<open>questionStartTimeRef\<close> are JavaScript \<^verbatim>\<open>Map\<close>s, kept as
  association lists in insertion order.  \<open>timers\<close> maps the handle of every armed
  timer to its callback and the time it is due; \<open>userSpoken\<close> and \<open>agentSpoken\<close> log the
  calls of the two callbacks of the hook's props.
\<close>

record voice_state =
  dedupedQuestions :: "question list"
  spokenQuestionIds :: "string set"
  promptTimerRef :: "nat option"
  questionMaxTimeoutRef :: "(string \<times> nat) list"
  questionStartTimeRef :: "(string \<times> int) list"
  hasResultRef :: bool
  hasNoMatchRef :: bool
  audioActiveRef :: bool
  retryHandledRef :: bool
  clock :: int
  timers :: "nat \<rightharpoonup> (timer_action \<times> int)"
  nextTimer :: nat
  recognitions :: "recognition list"
  synthQueue :: "question list"
  userSpoken :: "(string \<times> question list) list"
  agentSpoken :: "string list"
  recognitionSupported :: bool

text \<open>
  \<^verbatim>\<open>setTimeout\<close> returns a fresh handle.  Handles are positive integers in a browser,
  so a handle that is present is truthy: the tests \<^verbatim>\<open>if (promptTimerRef.current)\<close> of
  \<^verbatim>\<open>useVoiceChatv2.ts\<close>, and \<^verbatim>\<open>!== null\<close> and \<^verbatim>\<open>if (maxTimeout)\<close> of
  \<^verbatim>\<open>useVoice.ts\<close>, are all the case distinction on the option.  A timer is armed with
  the time it is due, \<open>clock\<close> (the value of \<^verbatim>\<open>Date.now()\<close>) plus the delay.
\<close>

definition setTimeout :: "timer_action \<Rightarrow> int \<Rightarrow> voice_state \<Rightarrow> nat \<times> voice_state" where
  "setTimeout cb delay s =
     (nextTimer s,
      s\<lparr>timers := (timers s)(nextTimer s \<mapsto> (cb, clock s + delay)),
        nextTimer := Suc (nextTimer s)\<rparr>)"

definition clearTimeout :: "nat \<Rightarrow> voice_state \<Rightarrow> voice_state" where
  "clearTimeout t s = s\<lparr>timers := (timers s)(t := None)\<rparr>"

text \<open>\<^verbatim>\<open>recognition.stop()\<close> on the recognizer with handle \<open>h\<close>.\<close>

definition recognition_stop :: "nat \<Rightarrow> voice_state \<Rightarrow> voice_state" where
  "recognition_stop h s =
     (if h < length (recognitions s)
      then s\<lparr>recognitions := (recognitions s)[h := (recognitions s ! h)\<lparr>stop_called := True\<rparr>]\<rparr>
      else s)"

text \<open>
  \<^verbatim>\<open>speechSynthesis\<close>: a queue of utterances, each carrying the question its
  \<^verbatim>\<open>onend\<close> closes over.  \<^verbatim>\<open>speaking\<close> holds while the queue is not empty and
  \<^verbatim>\<open>cancel()\<close> empties it (a cancelled utterance gets no \<^verbatim>\<open>end\<close> event).
\<close>

definition speaking :: "voice_state \<Rightarrow> bool" where
  "speaking s = (synthQueue s \<noteq> [])"

definition synth_cancel :: "voice_state \<Rightarrow> voice_state" where
  "synth_cancel s = s\<lparr>synthQueue := []\<rparr>"

definition synth_speak :: "question \<Rightarrow> voice_state \<Rightarrow> voice_state" where
  "synth_speak q s = s\<lparr>synthQueue := synthQueue s @ [q]\<rparr>"

text \<open>The state of a freshly mounted hook.\<close>

definition mounted :: "bool \<Rightarrow> voice_state" where
  "mounted supported =
     \<lparr>dedupedQuestions = [], spokenQuestionIds = {}, promptTimerRef = None,
      questionMaxTimeoutRef = [], questionStartTimeRef = [],
      hasResultRef = False, hasNoMatchRef = False, audioActiveRef = False,
      retryHandledRef = False, clock = 0, timers = Map.empty, nextTimer = 1,
      recognitions = [], synthQueue = [], userSpoken = [], agentSpoken = [],
      recognitionSupported = supported\<rparr>"

text \<open>
  Events the browser delivers to the hook: a new \<open>questions\<close> prop, the end of the
  utterance being spoken, the firing of a timer, the events of a recognizer (named by
  its handle), and the passing of \<open>d\<close> ms (\<open>Tick d\<close>).
\<close>

datatype event =
    QuestionsChanged "question list"
  | UtteranceEnd
  | TimerFire nat
  | AudioStart nat
  | AudioEnd nat
  | Result nat string
  | NoMatch nat
  | RecError nat
  | RecEnd nat
  | Tick int

subsection \<open>Handlers common to \<^verbatim>\<open>useVoiceChatv2.ts\<close> and \<^verbatim>\<open>useVoice.ts\<close>\<close>

text \<open>
  \<^verbatim>\<open>if (promptTimerRef.current !== null) { clearTimeout(promptTimerRef.current);
     promptTimerRef.current = null; }\<close>
\<close>

definition clearPromptTimer :: "voice_state \<Rightarrow> voice_state" where
  "clearPromptTimer s =
     (case promptTimerRef s of
        None \<Rightarrow> s
      | Some t \<Rightarrow> (clearTimeout t s)\<lparr>promptTimerRef := None\<rparr>)"

text \<open>
  \<^verbatim>\<open>startSilenceTimer\<close>: clears the timer in the ref (without resetting the ref) and
  arms a new one of 2000 ms (\<^verbatim>\<open>SILENCE_TIMER\<close>) that stops this recognizer.
\<close>

definition SILENCE_TIMER :: int where
  "SILENCE_TIMER = 2000"

definition startSilenceTimer :: "nat \<Rightarrow> voice_state \<Rightarrow> voice_state" where
  "startSilenceTimer h s =
     (let s1 = (case promptTimerRef s of None \<Rightarrow> s | Some t \<Rightarrow> clearTimeout t s);
          (t, s2) = setTimeout (SilenceStop h) SILENCE_TIMER s1
      in s2\<lparr>promptTimerRef := Some t\<rparr>)"

definition onaudiostart :: "nat \<Rightarrow> voice_state \<Rightarrow> voice_state" where
  "onaudiostart h s = clearPromptTimer (s\<lparr>audioActiveRef := True\<rparr>)"

definition onaudioend :: "nat \<Rightarrow> voice_state \<Rightarrow> voice_state" where
  "onaudioend h s =
     (let s1 = s\<lparr>audioActiveRef := False\<rparr>
      in if \<not> hasResultRef s1 \<and> \<not> hasNoMatchRef s1 then startSilenceTimer h s1 else s1)"

definition onnomatch :: "nat \<Rightarrow> voice_state \<Rightarrow> voice_state" where
  "onnomatch h s = recognition_stop h (clearPromptTimer (s\<lparr>hasNoMatchRef := True\<rparr>))"

text \<open>
  \<^verbatim>\<open>prev.map((q) => q.id === question.id ? { ...q, user_answer: text } : q)\<close>
\<close>

definition answered_with :: "question \<Rightarrow> string \<Rightarrow> question list \<Rightarrow> question list" where
  "answered_with question answer prev =
     map (\<lambda>q. if qid q = qid question then q\<lparr>user_answer := answer\<rparr> else q) prev"

subsection \<open>\<^verbatim>\<open>useVoiceChatv2.ts\<close>\<close>

text \<open>
  The updater passed to \<^verbatim>\<open>setDedupedQuestions\<close> in \<^verbatim>\<open>onresult\<close> and \<^verbatim>\<open>onend\<close>: it
  calls \<^verbatim>\<open>onUserSpoken(text, updated)\<close> and returns \<open>updated\<close>.  The updater is run
  once, as soon as it is queued.
\<close>

definition resolve_v2 :: "question \<Rightarrow> string \<Rightarrow> voice_state \<Rightarrow> voice_state" where
  "resolve_v2 question answer s =
     (let updated = answered_with question answer (dedupedQuestions s)
      in s\<lparr>userSpoken := userSpoken s @ [(answer, updated)], dedupedQuestions := updated\<rparr>)"

definition tryListening_v2 :: "question \<Rightarrow> nat \<Rightarrow> voice_state \<Rightarrow> voice_state" where
  "tryListening_v2 question attempt s =
     (if \<not> recognitionSupported s then s
      else
        let h = length (recognitions s);
            s1 = s\<lparr>recognitions := recognitions s @
                     [\<lparr>rec_question = question, rec_attempt = attempt,
                       listeningStartTime = clock s, stop_called = False,
                       rec_ended = False\<rparr>],
                   hasResultRef := False, hasNoMatchRef := False,
                   audioActiveRef := False\<rparr>
        in startSilenceTimer h s1)"

definition onresult_v2 :: "nat \<Rightarrow> string \<Rightarrow> voice_state \<Rightarrow> voice_state" where
  "onresult_v2 h transcript s =
     (let s1 = clearPromptTimer (s\<lparr>hasResultRef := True\<rparr>);
          s2 = resolve_v2 (rec_question (recognitions s ! h)) transcript s1
      in recognition_stop h s2)"

definition onerror_v2 :: "nat \<Rightarrow> voice_state \<Rightarrow> voice_state" where
  "onerror_v2 h s = recognition_stop h (clearPromptTimer s)"

definition onend_v2 :: "nat \<Rightarrow> voice_state \<Rightarrow> voice_state" where
  "onend_v2 h s =
     (let question = rec_question (recognitions s ! h);
          attempt = rec_attempt (recognitions s ! h);
          s1 = clearPromptTimer s
      in if hasResultRef s1 then s1
         else if hasNoMatchRef s1 then
           (if attempt < 3
            then snd (setTimeout (RetryListening question (attempt + 1)) 300 s1)
            else resolve_v2 question ''[Unintelligible]'' s1)
         else
           (if attempt < 3
            then snd (setTimeout (RetryListening question (attempt + 1)) 300 s1)
            else resolve_v2 question ''[No response]'' s1))"

definition speakAgentQuestion_v2 :: "question \<Rightarrow> voice_state \<Rightarrow> voice_state" where
  "speakAgentQuestion_v2 question s =
     synth_speak question (if speaking s then synth_cancel s else s)"

text \<open>
  The effect on \<open>[questions]\<close>: deduplicate, sort, reset the set of spoken ids and
  cancel any speech.
\<close>

definition questions_effect_v2 :: "question list \<Rightarrow> voice_state \<Rightarrow> voice_state" where
  "questions_effect_v2 questions s =
     (let s1 = s\<lparr>dedupedQuestions := sorted_questions questions, spokenQuestionIds := {}\<rparr>
      in if speaking s1 then synth_cancel s1 else s1)"

text \<open>
  The effect on \<open>[currentQuestion]\<close>.  React runs it after a render in which the
  current question has changed; running it after every handler does the same, because
  its body returns at once for a question whose id is in \<open>spokenQuestionIds\<close>.
\<close>

definition currentQuestion_effect_v2 :: "voice_state \<Rightarrow> voice_state" where
  "currentQuestion_effect_v2 s =
     (case currentQuestion (dedupedQuestions s) of
        None \<Rightarrow> s
      | Some q \<Rightarrow>
          if qid q \<in> spokenQuestionIds s then s
          else (speakAgentQuestion_v2 q s)
                 \<lparr>spokenQuestionIds := insert (qid q) (spokenQuestionIds s)\<rparr>)"

text \<open>
  A timer that fires is disarmed and its callback runs; the clock has then reached the
  time the timer was due.
\<close>

definition fire_v2 :: "nat \<Rightarrow> voice_state \<Rightarrow> voice_state" where
  "fire_v2 t s =
     (case timers s t of
        None \<Rightarrow> s
      | Some (cb, due) \<Rightarrow>
          let s1 = s\<lparr>timers := (timers s)(t := None), clock := max (clock s) due\<rparr>
          in (case cb of
                SilenceStop h \<Rightarrow> recognition_stop h s1
              | RetryListening q a \<Rightarrow> tryListening_v2 q a s1
              | MaxTimeout q \<Rightarrow> s1))"

text \<open>
  The utterance at the head of the queue finishes: \<^verbatim>\<open>utterance.onend\<close> reports the
  question as spoken and starts the first listening attempt.
\<close>

definition utterance_onend_v2 :: "voice_state \<Rightarrow> voice_state" where
  "utterance_onend_v2 s =
     (case synthQueue s of
        [] \<Rightarrow> s
      | q # rest \<Rightarrow>
          tryListening_v2 q 1
            (s\<lparr>synthQueue := rest, agentSpoken := agentSpoken s @ [agent_question q]\<rparr>))"

definition on_recognizer :: "nat \<Rightarrow> (nat \<Rightarrow> voice_state \<Rightarrow> voice_state) \<Rightarrow> voice_state \<Rightarrow> voice_state" where
  "on_recognizer h handler s = (if h < length (recognitions s) then handler h s else s)"

definition mark_ended :: "nat \<Rightarrow> voice_state \<Rightarrow> voice_state" where
  "mark_ended h s =
     s\<lparr>recognitions := (recognitions s)[h := (recognitions s ! h)\<lparr>rec_ended := True\<rparr>]\<rparr>"

fun handle_v2 :: "event \<Rightarrow> voice_state \<Rightarrow> voice_state" where
  "handle_v2 (QuestionsChanged qs) s = questions_effect_v2 qs s"
| "handle_v2 UtteranceEnd s = utterance_onend_v2 s"
| "handle_v2 (TimerFire t) s = fire_v2 t s"
| "handle_v2 (AudioStart h) s = on_recognizer h onaudiostart s"
| "handle_v2 (AudioEnd h) s = on_recognizer h onaudioend s"
| "handle_v2 (Result h transcript) s = on_recognizer h (\<lambda>h. onresult_v2 h transcript) s"
| "handle_v2 (NoMatch h) s = on_recognizer h onnomatch s"
| "handle_v2 (RecError h) s = on_recognizer h onerror_v2 s"
| "handle_v2 (RecEnd h) s = on_recognizer h (\<lambda>h s. onend_v2 h (mark_ended h s)) s"
| "handle_v2 (Tick d) s = s\<lparr>clock := clock s + max 0 d\<rparr>"

definition step_v2 :: "event \<Rightarrow> voice_state \<Rightarrow> voice_state" where
  "step_v2 ev s = currentQuestion_effect_v2 (handle_v2 ev s)"

subsection \<open>The hook with hard deadlines (third unit of \<^verbatim>\<open>useVoice.ts\<close>)\<close>

definition MAX_TIMEOUT_TIMER :: int where
  "MAX_TIMEOUT_TIMER = 30000"

text \<open>
  \<^verbatim>\<open>finalizeQuestion(questionId)\<close>: clears the hard deadline registered for the id,
  clears the silence timer in \<open>promptTimerRef\<close>, and drops the start time (after logging
  the duration) when it is truthy.  Nothing here touches a recognizer.
\<close>

definition finalizeQuestion :: "string \<Rightarrow> voice_state \<Rightarrow> voice_state" where
  "finalizeQuestion questionId s =
     (let s1 = (case map_of (questionMaxTimeoutRef s) questionId of
                  None \<Rightarrow> s
                | Some maxTimeout \<Rightarrow>
                    (clearTimeout maxTimeout s)
                      \<lparr>questionMaxTimeoutRef :=
                         AList.delete questionId (questionMaxTimeoutRef s)\<rparr>);
          s2 = clearPromptTimer s1
      in case map_of (questionStartTimeRef s2) questionId of
           None \<Rightarrow> s2
         | Some startTime \<Rightarrow>
             if startTime \<noteq> 0
             then s2\<lparr>questionStartTimeRef := AList.delete questionId (questionStartTimeRef s2)\<rparr>
             else s2)"

text \<open>
  The updater of \<^verbatim>\<open>onresult\<close> and \<^verbatim>\<open>onend\<close>:
  \<^verbatim>\<open>onUserSpoken(text, updated); finalizeQuestion(question.id); return updated;\<close>
\<close>

definition resolve_hd :: "question \<Rightarrow> string \<Rightarrow> voice_state \<Rightarrow> voice_state" where
  "resolve_hd question answer s =
     (let updated = answered_with question answer (dedupedQuestions s);
          s1 = s\<lparr>userSpoken := userSpoken s @ [(answer, updated)]\<rparr>;
          s2 = finalizeQuestion (qid question) s1
      in s2\<lparr>dedupedQuestions := updated\<rparr>)"

text \<open>
  The callback of the hard-deadline timer armed by \<^verbatim>\<open>speakAgentQuestion\<close>;
  \<^verbatim>\<open>alreadyAnswered = prev.some((q) => q.id === question.id && q.user_answer)\<close>.
\<close>

definition alreadyAnswered :: "question \<Rightarrow> question list \<Rightarrow> bool" where
  "alreadyAnswered question prev =
     list_ex (\<lambda>q. qid q = qid question \<and> user_answer q \<noteq> []) prev"

definition maxTimeout_callback :: "question \<Rightarrow> voice_state \<Rightarrow> voice_state" where
  "maxTimeout_callback question s =
     (if alreadyAnswered question (dedupedQuestions s)
      then finalizeQuestion (qid question) s
      else
        let updated = answered_with question ''[Timeout]'' (dedupedQuestions s);
            s1 = s\<lparr>userSpoken := userSpoken s @ [(''[Timeout]'', updated)]\<rparr>;
            s2 = finalizeQuestion (qid question) s1;
            s3 = s2\<lparr>questionStartTimeRef :=
                      AList.delete (qid question) (questionStartTimeRef s2)\<rparr>
        in s3\<lparr>dedupedQuestions := updated\<rparr>)"

definition speakAgentQuestion_hd :: "question \<Rightarrow> voice_state \<Rightarrow> voice_state" where
  "speakAgentQuestion_hd question s =
     (let s1 = (if speaking s then synth_cancel s else s);
          s2 = s1\<lparr>questionStartTimeRef :=
                    AList.update (qid question) (clock s1) (questionStartTimeRef s1)\<rparr>;
          (maxTimeout, s3) = setTimeout (MaxTimeout question) MAX_TIMEOUT_TIMER s2;
          s4 = s3\<lparr>questionMaxTimeoutRef :=
                    AList.update (qid question) maxTimeout (questionMaxTimeoutRef s3)\<rparr>
      in synth_speak question s4)"

definition tryListening_hd :: "question \<Rightarrow> nat \<Rightarrow> voice_state \<Rightarrow> voice_state" where
  "tryListening_hd question attempt s =
     (if \<not> recognitionSupported s then finalizeQuestion (qid question) s
      else
        let h = length (recognitions s);
            s1 = s\<lparr>recognitions := recognitions s @
                     [\<lparr>rec_question = question, rec_attempt = attempt,
                       listeningStartTime = clock s, stop_called = False,
                       rec_ended = False\<rparr>],
                   hasResultRef := False, hasNoMatchRef := False,
                   audioActiveRef := False, retryHandledRef := False\<rparr>
        in startSilenceTimer h s1)"

definition onresult_hd :: "nat \<Rightarrow> string \<Rightarrow> voice_state \<Rightarrow> voice_state" where
  "onresult_hd h transcript s =
     (let s1 = clearPromptTimer (s\<lparr>hasResultRef := True\<rparr>);
          s2 = resolve_hd (rec_question (recognitions s ! h)) transcript s1
      in recognition_stop h s2)"

definition onerror_hd :: "nat \<Rightarrow> voice_state \<Rightarrow> voice_state" where
  "onerror_hd h s = recognition_stop h ((clearPromptTimer s)\<lparr>retryHandledRef := True\<rparr>)"

text \<open>
  \<^verbatim>\<open>recognition.onend\<close>.  The retry branch is guarded by \<^verbatim>\<open>attempt < 1\<close>; when the
  recognizer ended before \<^verbatim>\<open>SILENCE_TIMER * attempt\<close> ms without a no-match the handler
  does nothing more.
\<close>

definition onend_hd :: "nat \<Rightarrow> voice_state \<Rightarrow> voice_state" where
  "onend_hd h s =
     (let question = rec_question (recognitions s ! h);
          attempt = rec_attempt (recognitions s ! h)
      in if retryHandledRef s then s
         else
           let s1 = clearPromptTimer (s\<lparr>retryHandledRef := True\<rparr>)
           in if hasResultRef s1 then s1
              else
                let elapsedTime = clock s1 - listeningStartTime (recognitions s ! h)
                in if elapsedTime \<ge> SILENCE_TIMER * int attempt \<or> hasNoMatchRef s1 then
                     (if attempt < 1 \<and> \<not> hasNoMatchRef s1
                      then snd (setTimeout (RetryListening question (attempt + 1)) 700 s1)
                      else resolve_hd question
                             (if hasNoMatchRef s1 then ''[Unintelligible]''
                              else ''[No response]'') s1)
                   else s1)"

text \<open>
  The effect on \<open>[questions]\<close>; besides the work of \<^verbatim>\<open>useVoiceChatv2.ts\<close> it clears
  every registered hard deadline.
\<close>

definition questions_effect_hd :: "question list \<Rightarrow> voice_state \<Rightarrow> voice_state" where
  "questions_effect_hd questions s =
     (let s1 = s\<lparr>dedupedQuestions := sorted_questions questions, spokenQuestionIds := {}\<rparr>;
          s2 = (if speaking s1 then synth_cancel s1 else s1);
          s3 = fold clearTimeout (map snd (questionMaxTimeoutRef s2)) s2
      in s3\<lparr>questionMaxTimeoutRef := []\<rparr>)"

definition currentQuestion_effect_hd :: "voice_state \<Rightarrow> voice_state" where
  "currentQuestion_effect_hd s =
     (case currentQuestion (dedupedQuestions s) of
        None \<Rightarrow> s
      | Some q \<Rightarrow>
          if qid q \<in> spokenQuestionIds s then s
          else (speakAgentQuestion_hd q s)
                 \<lparr>spokenQuestionIds := insert (qid q) (spokenQuestionIds s)\<rparr>)"

definition fire_hd :: "nat \<Rightarrow> voice_state \<Rightarrow> voice_state" where
  "fire_hd t s =
     (case timers s t of
        None \<Rightarrow> s
      | Some (cb, due) \<Rightarrow>
          let s1 = s\<lparr>timers := (timers s)(t := None), clock := max (clock s) due\<rparr>
          in (case cb of
                SilenceStop h \<Rightarrow> recognition_stop h s1
              | RetryListening q a \<Rightarrow> tryListening_hd q a s1
              | MaxTimeout q \<Rightarrow> maxTimeout_callback q s1))"

definition utterance_onend_hd :: "voice_state \<Rightarrow> voice_state" where
  "utterance_onend_hd s =
     (case synthQueue s of
        [] \<Rightarrow> s
      | q # rest \<Rightarrow>
          tryListening_hd q 1
            (s\<lparr>synthQueue := rest, agentSpoken := agentSpoken s @ [agent_question q]\<rparr>))"

fun handle_hd :: "event \<Rightarrow> voice_state \<Rightarrow> voice_state" where
  "handle_hd (QuestionsChanged qs) s = questions_effect_hd qs s"
| "handle_hd UtteranceEnd s = utterance_onend_hd s"
| "handle_hd (TimerFire t) s = fire_hd t s"
| "handle_hd (AudioStart h) s = on_recognizer h onaudiostart s"
| "handle_hd (AudioEnd h) s = on_recognizer h onaudioend s"
| "handle_hd (Result h transcript) s = on_recognizer h (\<lambda>h. onresult_hd h transcript) s"
| "handle_hd (NoMatch h) s = on_recognizer h onnomatch s"
| "handle_hd (RecError h) s = on_recognizer h onerror_hd s"
| "handle_hd (RecEnd h) s = on_recognizer h (\<lambda>h s. onend_hd h (mark_ended h s)) s"
| "handle_hd (Tick d) s = s\<lparr>clock := clock s + max 0 d\<rparr>"

definition step_hd :: "event \<Rightarrow> voice_state \<Rightarrow> voice_state" where
  "step_hd ev s = currentQuestion_effect_hd (handle_hd ev s)"

definition run_hd :: "event list \<Rightarrow> voice_state \<Rightarrow> voice_state" where
  "run_hd evs s = foldl (\<lambda>s ev. step_hd ev s) s evs"

subsection \<open>A recognizer that hears nothing\<close>

text \<open>
  The environment of the silence scenario: every utterance is spoken to its end, no
  recognizer ever reports audio, a result, a no-match or an error, every armed timer
  fires when it is due (the earliest first), and a recognizer that was stopped ends.
\<close>

definition armed_timers :: "voice_state \<Rightarrow> nat list" where
  "armed_timers s = filter (\<lambda>t. timers s t \<noteq> None) [0..<nextTimer s]"

definition due_time :: "voice_state \<Rightarrow> nat \<Rightarrow> int" where
  "due_time s t = (case timers s t of None \<Rightarrow> 0 | Some (cb, due) \<Rightarrow> due)"

definition pending_end :: "voice_state \<Rightarrow> nat option" where
  "pending_end s =
     find (\<lambda>h. stop_called (recognitions s ! h) \<and> \<not> rec_ended (recognitions s ! h))
       [0..<length (recognitions s)]"

definition silent_next :: "voice_state \<Rightarrow> event option" where
  "silent_next s =
     (if synthQueue s \<noteq> [] then Some UtteranceEnd
      else case pending_end s of
        Some h \<Rightarrow> Some (RecEnd h)
      | None \<Rightarrow>
          (case armed_timers s of
             [] \<Rightarrow> None
           | t # ts \<Rightarrow> Some (TimerFire (arg_min_list (due_time s) (t # ts)))))"

fun silent_run_v2 :: "nat \<Rightarrow> voice_state \<Rightarrow> voice_state" where
  "silent_run_v2 0 s = s"
| "silent_run_v2 (Suc n) s =
     (case silent_next s of
        None \<Rightarrow> s
      | Some ev \<Rightarrow> silent_run_v2 n (step_v2 ev s))"

fun silent_run_hd :: "nat \<Rightarrow> voice_state \<Rightarrow> voice_state" where
  "silent_run_hd 0 s = s"
| "silent_run_hd (Suc n) s =
     (case silent_next s of
        None \<Rightarrow> s
      | Some ev \<Rightarrow> silent_run_hd n (step_hd ev s))"

definition attempts_log :: "voice_state \<Rightarrow> (string \<times> nat) list" where
  "attempts_log s = map (\<lambda>r. (qid (rec_question r), rec_attempt r)) (recognitions s)"

section \<open>The live-agent hooks (first and second unit of \<^verbatim>\<open>useVoice.ts\<close>)\<close>

text \<open>
  Both units export a hook that speaks every \<^verbatim>\<open>agent_message\<close> received over a
  WebSocket and listens for the user.  The first unit listens while the agent speaks
  and keeps \<open>recognitionRef\<close> and \<open>currentUtteranceRef\<close>; the second unit speaks first (by
  speech synthesis, or by an audio clip when \<open>audioData\<close> is present) and listens
  afterwards.  One state type serves both; functions the two units share up to such
  differences take the unit as a parameter.
\<close>

datatype live_unit = Live1 | Live2

datatype readyState = CONNECTING | OPEN | CLOSING | CLOSED

text \<open>The outbound JSON records.\<close>

datatype message = Start | UserMessage string | SessionEnded string

text \<open>
  A value that is thrown or passed to \<^verbatim>\<open>reject\<close>: a string (\<^verbatim>\<open>reject('No speech
  detected')\<close>, \<^verbatim>\<open>reject(event.error)\<close>) or an \<^verbatim>\<open>Error\<close> object
  (\<^verbatim>\<open>throw new Error(...)\<close>).  \<^verbatim>\<open>err === 'No speech detected'\<close> holds for the string
  only.
\<close>

datatype js_error = Rejection string | ErrorObject string

datatype 'a promise = Pending | Fulfilled 'a | Rejected js_error

text \<open>
  Who waits for the promise of \<^verbatim>\<open>listenToUser\<close>: the \<^verbatim>\<open>.then\<close> of \<^verbatim>\<open>ws.onmessage\<close>
  (first unit; it refers to the promise of the agent's utterance), or the
  \<^verbatim>\<open>await\<close> of the retry loop with the given number.  Who waits for the promise of
  \<^verbatim>\<open>speakText\<close>: nobody yet, the start of a retry loop, or the \<^verbatim>\<open>await\<close> in the
  \<^verbatim>\<open>catch\<close> block of a retry loop.
\<close>

datatype listener = OnMessage nat | TryListening nat

datatype speech_waiter = NoWaiter | StartRetryLoop | ContinueRetry nat

datatype live_timer = RejectNoSpeech nat | StartRetry | RetryAgain nat

record live_recognition =
  lr_hasResult :: bool
  lr_stop_called :: bool
  lr_promise :: "string promise"
  lr_listener :: listener

record live_utterance =
  lu_words :: string
  lu_audio :: bool
  lu_promise :: "unit promise"
  lu_waiter :: speech_waiter

text \<open>
  \<open>attempts\<close> holds the counter of every retry loop started so far (the variable
  \<^verbatim>\<open>let attempts = 0\<close> of each closure); \<open>queue\<close> is the queue of
  \<^verbatim>\<open>window.speechSynthesis\<close>; \<open>timeouts\<close> lists the pending \<^verbatim>\<open>setTimeout\<close> callbacks with
  their delays.
\<close>

record live_state =
  wsRef :: "readyState option"
  sent :: "message list"
  agentIsSpeakingRef :: bool
  currentUtteranceRef :: "nat option"
  recognitionRef :: "nat option"
  attempts :: "nat list"
  live_recognitions :: "live_recognition list"
  utterances :: "live_utterance list"
  queue :: "nat list"
  paused :: bool
  timeouts :: "(live_timer \<times> int) list"
  recognitionAvailable :: bool

text \<open>
  \<^verbatim>\<open>wsRef.current && wsRef.current.readyState === WebSocket.OPEN\<close>, and the guarded
  \<^verbatim>\<open>send\<close> used throughout.
\<close>

definition ws_open :: "live_state \<Rightarrow> bool" where
  "ws_open s = (wsRef s = Some OPEN)"

definition send_if_open :: "message \<Rightarrow> live_state \<Rightarrow> live_state" where
  "send_if_open m s = (if ws_open s then s\<lparr>sent := sent s @ [m]\<rparr> else s)"

definition ws_close :: "live_state \<Rightarrow> live_state" where
  "ws_close s =
     s\<lparr>wsRef := (case wsRef s of
                    Some OPEN \<Rightarrow> Some CLOSING
                  | Some CONNECTING \<Rightarrow> Some CLOSING
                  | r \<Rightarrow> r)\<rparr>"

definition live_setTimeout :: "live_timer \<Rightarrow> int \<Rightarrow> live_state \<Rightarrow> live_state" where
  "live_setTimeout cb delay s = s\<lparr>timeouts := timeouts s @ [(cb, delay)]\<rparr>"

text \<open>
  Stopping the agent's speech.  First unit: \<^verbatim>\<open>speechSynthesis.pause();
  speechSynthesis.cancel(); agentIsSpeakingRef.current = false;
  currentUtteranceRef.current = null\<close>.  Second unit: \<^verbatim>\<open>speechSynthesis.cancel();
  agentIsSpeakingRef.current = false\<close>.
\<close>

definition stop_speech :: "live_unit \<Rightarrow> live_state \<Rightarrow> live_state" where
  "stop_speech v s =
     (case v of
        Live1 \<Rightarrow> s\<lparr>paused := True, queue := [], agentIsSpeakingRef := False,
                    currentUtteranceRef := None\<rparr>
      | Live2 \<Rightarrow> s\<lparr>queue := [], agentIsSpeakingRef := False\<rparr>)"

definition live_recognition_stop :: "nat \<Rightarrow> live_state \<Rightarrow> live_state" where
  "live_recognition_stop h s =
     (if h < length (live_recognitions s)
      then s\<lparr>live_recognitions :=
               (live_recognitions s)[h := (live_recognitions s ! h)\<lparr>lr_stop_called := True\<rparr>]\<rparr>
      else s)"

text \<open>
  \<^verbatim>\<open>if (recognitionRef.current) { recognitionRef.current.stop();
     recognitionRef.current = null; }\<close> (first unit only).
\<close>

definition stop_recognitionRef :: "live_state \<Rightarrow> live_state" where
  "stop_recognitionRef s =
     (case recognitionRef s of
        None \<Rightarrow> s
      | Some h \<Rightarrow> (live_recognition_stop h s)\<lparr>recognitionRef := None\<rparr>)"

text \<open>
  \<^verbatim>\<open>speakText\<close>.  The first unit clears any speech first and queues an utterance.  The
  second unit queues an utterance when \<open>audioData\<close> is falsy and otherwise creates an
  audio element, which is not in the queue of \<^verbatim>\<open>speechSynthesis\<close>.
\<close>

definition speakText :: "live_unit \<Rightarrow> string \<Rightarrow> string \<Rightarrow> speech_waiter \<Rightarrow> live_state \<Rightarrow> live_state" where
  "speakText v words audioData waiter s =
     (let s1 = (case v of Live1 \<Rightarrow> stop_speech Live1 s | Live2 \<Rightarrow> s);
          u = length (utterances s1);
          audio = (v = Live2 \<and> audioData \<noteq> [])
      in s1\<lparr>utterances := utterances s1 @
                [\<lparr>lu_words = words, lu_audio = audio, lu_promise = Pending,
                  lu_waiter = waiter\<rparr>],
             queue := (if audio then queue s1 else queue s1 @ [u])\<rparr>)"

text \<open>
  The \<^verbatim>\<open>catch\<close> block of \<^verbatim>\<open>tryListening\<close>, up to its \<^verbatim>\<open>await speakText(...)\<close>.
\<close>

definition maxAttempts :: nat where
  "maxAttempts = 3"

definition tryListening_catch :: "live_unit \<Rightarrow> nat \<Rightarrow> js_error \<Rightarrow> live_state \<Rightarrow> live_state" where
  "tryListening_catch v k err s =
     (let s1 = s\<lparr>attempts := (attempts s)[k := Suc (attempts s ! k)]\<rparr>
      in if err = Rejection ''No speech detected'' \<and> attempts s1 ! k < maxAttempts
         then speakText v ''Can you hear me?'' [] (ContinueRetry k)
                (stop_speech v (case v of Live1 \<Rightarrow> stop_recognitionRef s1 | Live2 \<Rightarrow> s1))
         else if ws_open s1
           then ws_close
                  (s1\<lparr>sent := sent s1 @
                          [SessionEnded ''No speech detected after multiple attempts'']\<rparr>)
           else s1)"

text \<open>
  \<^verbatim>\<open>userText.trim().toLowerCase()\<close> for transcripts of ASCII characters.
\<close>

definition is_space :: "char \<Rightarrow> bool" where
  "is_space c = (c \<in> set [CHR '' '', CHR 0x09, CHR 0x0A, CHR 0x0B, CHR 0x0C, CHR 0x0D])"

definition trim :: "string \<Rightarrow> string" where
  "trim t = rev (dropWhile is_space (rev (dropWhile is_space t)))"

definition toLowerCase :: "string \<Rightarrow> string" where
  "toLowerCase t =
     map (\<lambda>c. case map_of (zip ''ABCDEFGHIJKLMNOPQRSTUVWXYZ'' ''abcdefghijklmnopqrstuvwxyz'') c of
                 None \<Rightarrow> c
               | Some l \<Rightarrow> l) t"

text \<open>
  The \<^verbatim>\<open>try\<close> block of \<^verbatim>\<open>tryListening\<close> after \<^verbatim>\<open>await listenToUser(...)\<close> has
  returned \<open>userText\<close>; the \<^verbatim>\<open>throw\<close> lands in the \<^verbatim>\<open>catch\<close> block of the same
  function.
\<close>

definition tryListening_then :: "live_unit \<Rightarrow> nat \<Rightarrow> string \<Rightarrow> live_state \<Rightarrow> live_state" where
  "tryListening_then v k userText s =
     (if toLowerCase (trim userText) = ''can you hear me?''
      then tryListening_catch v k (ErrorObject ''No speech detected'') s
      else send_if_open (UserMessage userText) s)"

text \<open>
  The two callbacks \<^verbatim>\<open>ws.onmessage\<close> of the first unit passes to \<^verbatim>\<open>.then\<close>: the
  first sends the transcript; the second chains the start of the retry loop on
  \<open>speakPromise\<close> (\<^verbatim>\<open>speakPromise.then(() => setTimeout(..., 500))\<close>).
\<close>

definition onmessage_fulfilled :: "string \<Rightarrow> live_state \<Rightarrow> live_state" where
  "onmessage_fulfilled userText s = send_if_open (UserMessage userText) s"

definition onmessage_rejected :: "nat \<Rightarrow> live_state \<Rightarrow> live_state" where
  "onmessage_rejected u s =
     (case lu_promise (utterances s ! u) of
        Fulfilled _ \<Rightarrow> live_setTimeout StartRetry 500 s
      | Pending \<Rightarrow>
          s\<lparr>utterances := (utterances s)[u := (utterances s ! u)\<lparr>lu_waiter := StartRetryLoop\<rparr>]\<rparr>
      | Rejected _ \<Rightarrow> s)"

text \<open>
  Settling the promise of \<^verbatim>\<open>listenToUser\<close>: only the first \<^verbatim>\<open>resolve\<close> or
  \<^verbatim>\<open>reject\<close> counts, and the code waiting for the promise runs next.
\<close>

definition listen_rejected :: "live_unit \<Rightarrow> listener \<Rightarrow> js_error \<Rightarrow> live_state \<Rightarrow> live_state" where
  "listen_rejected v l err s =
     (case l of
        OnMessage u \<Rightarrow> onmessage_rejected u s
      | TryListening k \<Rightarrow> tryListening_catch v k err s)"

definition listen_fulfilled :: "live_unit \<Rightarrow> listener \<Rightarrow> string \<Rightarrow> live_state \<Rightarrow> live_state" where
  "listen_fulfilled v l userText s =
     (case l of
        OnMessage u \<Rightarrow> onmessage_fulfilled userText s
      | TryListening k \<Rightarrow> tryListening_then v k userText s)"

definition resolve_listen :: "live_unit \<Rightarrow> nat \<Rightarrow> string \<Rightarrow> live_state \<Rightarrow> live_state" where
  "resolve_listen v h transcript s =
     (let r = live_recognitions s ! h
      in if lr_promise r = Pending
         then listen_fulfilled v (lr_listener r) transcript
                (s\<lparr>live_recognitions :=
                     (live_recognitions s)[h := r\<lparr>lr_promise := Fulfilled transcript\<rparr>]\<rparr>)
         else s)"

definition reject_listen :: "live_unit \<Rightarrow> nat \<Rightarrow> js_error \<Rightarrow> live_state \<Rightarrow> live_state" where
  "reject_listen v h err s =
     (let r = live_recognitions s ! h
      in if lr_promise r = Pending
         then listen_rejected v (lr_listener r) err
                (s\<lparr>live_recognitions :=
                     (live_recognitions s)[h := r\<lparr>lr_promise := Rejected err\<rparr>]\<rparr>)
         else s)"

text \<open>
  \<^verbatim>\<open>listenToUser\<close>: rejects at once when the browser has no recognizer; the first unit
  stops the recognizer in \<open>recognitionRef\<close> and stores the new one there.
\<close>

definition listenToUser :: "live_unit \<Rightarrow> listener \<Rightarrow> live_state \<Rightarrow> live_state" where
  "listenToUser v l s =
     (if \<not> recognitionAvailable s
      then listen_rejected v l (Rejection ''SpeechRecognition not supported'') s
      else
        let s1 = (case v of Live1 \<Rightarrow> stop_recognitionRef s | Live2 \<Rightarrow> s);
            h = length (live_recognitions s1);
            s2 = s1\<lparr>live_recognitions := live_recognitions s1 @
                      [\<lparr>lr_hasResult = False, lr_stop_called = False, lr_promise = Pending,
                        lr_listener = l\<rparr>]\<rparr>
        in (case v of Live1 \<Rightarrow> s2\<lparr>recognitionRef := Some h\<rparr> | Live2 \<Rightarrow> s2))"

text \<open>\<^verbatim>\<open>recognition.onresult\<close> of \<^verbatim>\<open>listenToUser\<close>, for each unit.\<close>

definition listen_onresult :: "live_unit \<Rightarrow> nat \<Rightarrow> string \<Rightarrow> live_state \<Rightarrow> live_state" where
  "listen_onresult v h transcript s =
     (let s1 = s\<lparr>live_recognitions :=
                   (live_recognitions s)[h := (live_recognitions s ! h)\<lparr>lr_hasResult := True\<rparr>]\<rparr>
      in case v of
           Live1 \<Rightarrow>
             if agentIsSpeakingRef s1 then
               let s2 = stop_speech Live1 s1;
                   s3 = send_if_open (UserMessage transcript) s2;
                   s4 = (live_recognition_stop h s3)\<lparr>recognitionRef := None\<rparr>
               in resolve_listen Live1 h transcript s4
             else
               resolve_listen Live1 h transcript
                 ((live_recognition_stop h s1)\<lparr>recognitionRef := None\<rparr>)
         | Live2 \<Rightarrow>
             let s2 = send_if_open (UserMessage transcript) s1
             in if agentIsSpeakingRef s2 then
                  let s3 = stop_speech Live2 s2;
                      s4 = send_if_open (UserMessage transcript) s3
                  in resolve_listen Live2 h transcript s4
                else resolve_listen Live2 h transcript s2)"

definition listen_onerror :: "live_unit \<Rightarrow> nat \<Rightarrow> string \<Rightarrow> live_state \<Rightarrow> live_state" where
  "listen_onerror v h error s =
     (case v of
        Live1 \<Rightarrow>
          reject_listen Live1 h
            (Rejection (if error = ''not-allowed''
                        then ''Microphone access denied. Please allow microphone access.''
                        else error))
            (s\<lparr>recognitionRef := None\<rparr>)
      | Live2 \<Rightarrow> reject_listen Live2 h (Rejection error) s)"

text \<open>
  \<^verbatim>\<open>recognition.onend\<close>: without a result and while the agent is silent, the rejection
  with \<^verbatim>\<open>'No speech detected'\<close> is scheduled after \<open>timeoutMs\<close> (3000 and 5000 ms).
\<close>

definition listen_onend :: "live_unit \<Rightarrow> nat \<Rightarrow> live_state \<Rightarrow> live_state" where
  "listen_onend v h s =
     (if \<not> lr_hasResult (live_recognitions s ! h) \<and> \<not> agentIsSpeakingRef s
      then (case v of
              Live1 \<Rightarrow> live_setTimeout (RejectNoSpeech h) 3000 (s\<lparr>recognitionRef := None\<rparr>)
            | Live2 \<Rightarrow> live_setTimeout (RejectNoSpeech h) 5000 s)
      else s)"

text \<open>The handlers of an utterance (or audio clip) created by \<^verbatim>\<open>speakText\<close>.\<close>

definition utterance_onstart :: "live_unit \<Rightarrow> nat \<Rightarrow> live_state \<Rightarrow> live_state" where
  "utterance_onstart v u s =
     (case v of
        Live1 \<Rightarrow> s\<lparr>agentIsSpeakingRef := True, currentUtteranceRef := Some u\<rparr>
      | Live2 \<Rightarrow> s\<lparr>agentIsSpeakingRef := True\<rparr>)"

definition speech_done :: "live_unit \<Rightarrow> live_state \<Rightarrow> live_state" where
  "speech_done v s =
     (case v of
        Live1 \<Rightarrow> s\<lparr>agentIsSpeakingRef := False, currentUtteranceRef := None\<rparr>
      | Live2 \<Rightarrow> s\<lparr>agentIsSpeakingRef := False\<rparr>)"

definition utterance_onend :: "live_unit \<Rightarrow> nat \<Rightarrow> live_state \<Rightarrow> live_state" where
  "utterance_onend v u s =
     (let s1 = (speech_done v s)\<lparr>queue := remove1 u (queue s)\<rparr>;
          w = utterances s1 ! u
      in if lu_promise w = Pending then
           (let s2 = s1\<lparr>utterances := (utterances s1)[u := w\<lparr>lu_promise := Fulfilled ()\<rparr>]\<rparr>
            in case lu_waiter w of
                 NoWaiter \<Rightarrow> s2
               | StartRetryLoop \<Rightarrow>
                   live_setTimeout StartRetry (case v of Live1 \<Rightarrow> 500 | Live2 \<Rightarrow> 3000) s2
               | ContinueRetry k \<Rightarrow> live_setTimeout (RetryAgain k) 500 s2)
         else s1)"

definition utterance_onerror :: "live_unit \<Rightarrow> nat \<Rightarrow> string \<Rightarrow> live_state \<Rightarrow> live_state" where
  "utterance_onerror v u error s =
     (let s1 = (speech_done v s)\<lparr>queue := remove1 u (queue s)\<rparr>;
          w = utterances s1 ! u
      in if lu_promise w = Pending
         then s1\<lparr>utterances := (utterances s1)[u := w\<lparr>lu_promise := Rejected (Rejection error)\<rparr>]\<rparr>
         else s1)"

text \<open>
  A pending timeout fires: the scheduled rejection of a listening promise, the start of
  a retry loop (\<^verbatim>\<open>let attempts = 0; ... tryListening()\<close>), or the next round of one.
\<close>

definition live_fire :: "live_unit \<Rightarrow> nat \<Rightarrow> live_state \<Rightarrow> live_state" where
  "live_fire v i s =
     (if i < length (timeouts s) then
        (let s1 = s\<lparr>timeouts := take i (timeouts s) @ drop (Suc i) (timeouts s)\<rparr>
         in case fst (timeouts s ! i) of
              RejectNoSpeech h \<Rightarrow> reject_listen v h (Rejection ''No speech detected'') s1
            | StartRetry \<Rightarrow>
                listenToUser v (TryListening (length (attempts s1)))
                  (s1\<lparr>attempts := attempts s1 @ [0]\<rparr>)
            | RetryAgain k \<Rightarrow> listenToUser v (TryListening k) s1)
      else s)"

text \<open>
  \<^verbatim>\<open>ws.onmessage\<close> for an \<^verbatim>\<open>agent_message\<close> with the given \<open>text\<close> and \<open>audioData\<close>
  (empty when absent).
\<close>

definition agent_message :: "live_unit \<Rightarrow> string \<Rightarrow> string \<Rightarrow> live_state \<Rightarrow> live_state" where
  "agent_message v words audioData s =
     (case v of
        Live1 \<Rightarrow>
          (let s1 = stop_speech Live1 (stop_recognitionRef s)
           in if words = [] then s1
              else
                let u = length (utterances s1);
                    s2 = speakText Live1 words [] NoWaiter s1
                in listenToUser Live1 (OnMessage u) s2)
      | Live2 \<Rightarrow>
          (let s1 = stop_speech Live2 s
           in if words = [] then s1
              else speakText Live2 words audioData StartRetryLoop s1))"

datatype live_event =
    AgentMessage string string
  | SpeechStart nat
  | SpeechEnd nat
  | SpeechError nat string
  | ListenResult nat string
  | ListenError nat string
  | ListenEnd nat
  | Timeout nat

fun live_step :: "live_unit \<Rightarrow> live_event \<Rightarrow> live_state \<Rightarrow> live_state" where
  "live_step v (AgentMessage words audioData) s = agent_message v words audioData s"
| "live_step v (SpeechStart u) s =
     (if u < length (utterances s) then utterance_onstart v u s else s)"
| "live_step v (SpeechEnd u) s =
     (if u < length (utterances s) then utterance_onend v u s else s)"
| "live_step v (SpeechError u error) s =
     (if u < length (utterances s) then utterance_onerror v u error s else s)"
| "live_step v (ListenResult h transcript) s =
     (if h < length (live_recognitions s) then listen_onresult v h transcript s else s)"
| "live_step v (ListenError h error) s =
     (if h < length (live_recognitions s) then listen_onerror v h error s else s)"
| "live_step v (ListenEnd h) s =
     (if h < length (live_recognitions s) then listen_onend v h s else s)"
| "live_step v (Timeout i) s = live_fire v i s"

definition live_run :: "live_unit \<Rightarrow> live_event list \<Rightarrow> live_state \<Rightarrow> live_state" where
  "live_run v evs s = foldl (\<lambda>s ev. live_step v ev s) s evs"

text \<open>The hook once the socket is open and \<^verbatim>\<open>{type: 'start'}\<close> has been sent.\<close>

definition connected :: live_state where
  "connected =
     \<lparr>wsRef = Some OPEN, sent = [Start], agentIsSpeakingRef = False,
      currentUtteranceRef = None, recognitionRef = None, attempts = [],
      live_recognitions = [], utterances = [], queue = [], paused = False, timeouts = [],
      recognitionAvailable = True\<rparr>"

section \<open>States and predicates used in the statements\<close>

subsection \<open>Concrete states\<close>

text \<open>A prompt with an empty answer, for the concrete instances below.\<close>

definition prompt :: "string \<Rightarrow> int \<Rightarrow> question" where
  "prompt i n =
     \<lparr>qid = i, agent_question = ''Question '' @ i, user_answer = [], timeout = 30,
      order = n, weight = 1\<rparr>"

text \<open>
  States of the hook with hard deadlines used in the concrete instances: one prompt
  loaded and spoken, with the first recognizer listening; the same after audio started
  and the hard deadline (timer 1) fired; the same after the recognizer ended on its own
  1000 ms into the attempt; and the listening state with the answer already filled in.
\<close>

definition listening_hd :: voice_state where
  "listening_hd = run_hd [QuestionsChanged [prompt ''A'' 1], UtteranceEnd] (mounted True)"

definition timed_out_hd :: voice_state where
  "timed_out_hd = run_hd [AudioStart 0, TimerFire 1] listening_hd"

definition early_end_hd :: voice_state where
  "early_end_hd = run_hd [Tick 1000, RecEnd 0] listening_hd"

definition answered_hd :: voice_state where
  "answered_hd = listening_hd\<lparr>dedupedQuestions := [(prompt ''A'' 1)\<lparr>user_answer := ''yes''\<rparr>]\<rparr>"

text \<open>
  \<^verbatim>\<open>useVoiceChatv2.ts\<close> with one prompt, after the silence timer of the third attempt
  has stopped the recognizer (handle 2).
\<close>

definition third_attempt_v2 :: voice_state where
  "third_attempt_v2 =
     silent_run_v2 8 (step_v2 (QuestionsChanged [prompt ''A'' 1]) (mounted True))"


definition retry_live1 :: live_state where
  "retry_live1 =
     live_run Live1
       [AgentMessage ''Hello'' [], SpeechStart 0, SpeechEnd 0, ListenEnd 0, Timeout 0, Timeout 0]
       connected"

definition retry_live2 :: live_state where
  "retry_live2 =
     live_run Live2 [AgentMessage ''Hello'' [], SpeechStart 0, SpeechEnd 0, Timeout 0] connected"

definition third_silence_live2 :: live_state where
  "third_silence_live2 =
     live_run Live2
       [ListenEnd 0, Timeout 0, SpeechStart 1, SpeechEnd 1, Timeout 0,
        ListenEnd 1, Timeout 0, SpeechStart 2, SpeechEnd 2, Timeout 0, ListenEnd 2]
       retry_live2"

text \<open>
  Further states of the hook with hard deadlines: the only prompt was spoken in a
  browser without speech recognition; the recognizer of \<open>listening_hd\<close> delivered an
  empty transcript and ended; and the recognizer of the only prompt is capturing audio.
\<close>

definition unsupported_hd :: voice_state where
  "unsupported_hd = run_hd [QuestionsChanged [prompt ''A'' 1], UtteranceEnd] (mounted False)"

definition empty_transcript_hd :: voice_state where
  "empty_transcript_hd = run_hd [Result 0 [], RecEnd 0] listening_hd"

definition capturing_hd :: voice_state where
  "capturing_hd =
     run_hd [QuestionsChanged [prompt ''A'' 1], UtteranceEnd, AudioStart 0] (mounted True)"

subsection \<open>Resolved turns and armed deadlines\<close>

text \<open>
  A prompt id is resolved when some entry of the list with that id has a non-empty
  answer (the test \<^verbatim>\<open>prev.some((q) => q.id === question.id && q.user_answer)\<close> of the
  deadline callback).  Its deadline is armed when \<open>questionMaxTimeoutRef\<close> registers a
  handle for the id, that handle is an armed timer whose callback is the hard deadline
  of a question with this id, and the timer is due \<open>MAX_TIMEOUT_TIMER\<close> ms after the
  start time recorded for the id.
\<close>

definition resolved :: "voice_state \<Rightarrow> string \<Rightarrow> bool" where
  "resolved s i = list_ex (\<lambda>q. qid q = i \<and> user_answer q \<noteq> []) (dedupedQuestions s)"






section \<open>Properties of the prompt set\<close>

lemma unique_ids_fresh: "qid ` set (unique seen qs) \<inter> seen = {}"
  by (induction qs arbitrary: seen) auto

lemma unique_not_seen: "q \<in> set (unique seen qs) \<Longrightarrow> qid q \<notin> seen"
  using unique_ids_fresh [of seen qs] by blast

lemma unique_distinct: "distinct (map qid (unique seen qs))"
proof (induction qs arbitrary: seen)
  case Nil
  show ?case by simp
next
  case (Cons q qs)
  have "qid q \<notin> qid ` set (unique (insert (qid q) seen) qs)"
  proof
    assume "qid q \<in> qid ` set (unique (insert (qid q) seen) qs)"
    then obtain y where y: "y \<in> set (unique (insert (qid q) seen) qs)" "qid y = qid q"
      by auto
    from unique_not_seen [OF y(1)] y(2) show False by simp
  qed
  with Cons show ?case by simp
qed

lemma unique_ids: "qid ` set (unique seen qs) = qid ` set qs - seen"
  by (induction qs arbitrary: seen) auto

lemma unique_first:
  "q \<in> set (unique seen qs) \<Longrightarrow> find (\<lambda>x. qid x = qid q) qs = Some q"
proof (induction qs arbitrary: seen)
  case Nil
  then show ?case by simp
next
  case (Cons x xs)
  show ?case
  proof (cases "qid x \<in> seen")
    case True
    with Cons.prems have in_rest: "q \<in> set (unique seen xs)" by simp
    have "qid q \<notin> seen"
      using unique_not_seen [OF in_rest] .
    with True have "qid x \<noteq> qid q" by auto
    with Cons.IH [OF in_rest] show ?thesis by simp
  next
    case False
    with Cons.prems have "q = x \<or> q \<in> set (unique (insert (qid x) seen) xs)" by auto
    then show ?thesis
    proof
      assume "q = x"
      then show ?thesis by simp
    next
      assume in_rest: "q \<in> set (unique (insert (qid x) seen) xs)"
      have "qid q \<notin> insert (qid x) seen"
        using unique_not_seen [OF in_rest] .
      then have "qid x \<noteq> qid q" by auto
      with Cons.IH [OF in_rest] show ?thesis by simp
    qed
  qed
qed

lemma find_first_index:
  "find P xs = Some x \<Longrightarrow> \<exists>i<length xs. xs ! i = x \<and> P x \<and> (\<forall>j<i. \<not> P (xs ! j))"
  by (auto simp: find_Some_iff)

lemma distinct_sort_key_map: "distinct (map f (sort_key g xs)) = distinct (map f xs)"
  by (simp add: distinct_map)

text \<open>
  Claim C8.  For every input list, the processed prompt set (\<open>sorted_questions\<close>, the
  value handed to \<^verbatim>\<open>setDedupedQuestions\<close> in all three scripted hooks) has exactly one
  prompt per id of the input, each the first occurrence of its id in the input, in
  ascending \<open>order\<close> (prompts of equal \<open>order\<close> keep their relative position); and the
  current prompt of any prompt list is its first entry with an empty answer, or there is
  none when every answer is filled.
\<close>

theorem prompt_set_processed:
  "let ds = sorted_questions questions in
     distinct (map qid ds)
     \<and> qid ` set ds = qid ` set questions
     \<and> (\<forall>q \<in> set ds. find (\<lambda>x. qid x = qid q) questions = Some q)
     \<and> sorted (map order ds)
     \<and> (\<forall>k. filter (\<lambda>q. order q = k) ds = filter (\<lambda>q. order q = k) (unique {} questions))
     \<and> (case currentQuestion prompts of
          None \<Rightarrow> \<forall>q \<in> set prompts. user_answer q \<noteq> []
        | Some q \<Rightarrow> \<exists>i<length prompts. prompts ! i = q \<and> user_answer q = []
                      \<and> (\<forall>j<i. user_answer (prompts ! j) \<noteq> []))"
proof -
  have d: "distinct (map qid (sorted_questions questions))"
    by (simp add: sorted_questions_def distinct_sort_key_map unique_distinct)
  have i: "qid ` set (sorted_questions questions) = qid ` set questions"
    by (simp add: sorted_questions_def unique_ids)
  have f: "\<forall>q \<in> set (sorted_questions questions). find (\<lambda>x. qid x = qid q) questions = Some q"
    by (simp add: sorted_questions_def unique_first)
  have s: "sorted (map order (sorted_questions questions))"
    by (simp add: sorted_questions_def)
  have st: "\<forall>k. filter (\<lambda>q. order q = k) (sorted_questions questions)
              = filter (\<lambda>q. order q = k) (unique {} questions)"
    by (simp add: sorted_questions_def sort_key_stable)
  have c: "case currentQuestion prompts of
          None \<Rightarrow> \<forall>q \<in> set prompts. user_answer q \<noteq> []
        | Some q \<Rightarrow> \<exists>i<length prompts. prompts ! i = q \<and> user_answer q = []
                      \<and> (\<forall>j<i. user_answer (prompts ! j) \<noteq> [])"
  proof (cases "currentQuestion prompts")
    case None
    then have "\<forall>q \<in> set prompts. user_answer q \<noteq> []"
      by (simp add: currentQuestion_def find_None_iff)
    with None show ?thesis by simp
  next
    case (Some q)
    then have "find (\<lambda>q. user_answer q = []) prompts = Some q"
      by (simp add: currentQuestion_def)
    from find_first_index [OF this] Some show ?thesis by simp
  qed
  from d i f s st c show ?thesis by (simp only: Let_def) blast
qed

theorem prompt_set_processed_witness:
  "sorted_questions [prompt ''B'' 2, (prompt ''A'' 1)\<lparr>user_answer := ''yes''\<rparr>, prompt ''B'' 0]
     = [(prompt ''A'' 1)\<lparr>user_answer := ''yes''\<rparr>, prompt ''B'' 2]
   \<and> currentQuestion [(prompt ''A'' 1)\<lparr>user_answer := ''yes''\<rparr>, prompt ''B'' 2]
     = Some (prompt ''B'' 2)
   \<and> user_answer (prompt ''B'' 2) = []"
  using prompt_set_processed
    [of "[prompt ''B'' 2, (prompt ''A'' 1)\<lparr>user_answer := ''yes''\<rparr>, prompt ''B'' 0]"
        "[(prompt ''A'' 1)\<lparr>user_answer := ''yes''\<rparr>, prompt ''B'' 2]"]
  by (simp add: sorted_questions_def currentQuestion_def prompt_def)

section \<open>The silence scenario\<close>

lemmas env_defs = setTimeout_def clearTimeout_def recognition_stop_def speaking_def
  synth_cancel_def synth_speak_def mounted_def on_recognizer_def mark_ended_def
  clearPromptTimer_def startSilenceTimer_def SILENCE_TIMER_def answered_with_def
  currentQuestion_def sorted_questions_def

lemmas silent_defs = silent_next_def pending_end_def armed_timers_def due_time_def
  attempts_log_def

lemmas v2_defs = step_v2_def currentQuestion_effect_v2_def questions_effect_v2_def
  speakAgentQuestion_v2_def utterance_onend_v2_def fire_v2_def onend_v2_def
  onresult_v2_def onerror_v2_def tryListening_v2_def resolve_v2_def

text \<open>
  Claim C1.  In \<^verbatim>\<open>useVoiceChatv2.ts\<close>, whose retry bound is 3, load three unanswered
  prompts \<open>a\<close>, \<open>b\<close>, \<open>c\<close> with distinct ids in ascending order and let every recognizer
  attempt end with no result, no no-match and no audio activity.  After 27 events
  nothing is pending any more; the listening attempts were 1, 2, 3 for \<open>a\<close>, then
  1, 2, 3 for \<open>b\<close>, then 1, 2, 3 for \<open>c\<close>; \<^verbatim>\<open>onUserSpoken\<close> was called exactly three
  times, each time with \<open>[No response]\<close>, first with only \<open>a\<close> answered, then \<open>a\<close> and \<open>b\<close>,
  then all three; and every prompt ends with the answer \<open>[No response]\<close>.
\<close>

theorem silence_scenario_three_prompts:
  assumes "qid a \<noteq> qid b" "qid a \<noteq> qid c" "qid b \<noteq> qid c"
    and "user_answer a = []" "user_answer b = []" "user_answer c = []"
    and "order a \<le> order b" "order b \<le> order c"
  shows "let s = silent_run_v2 27 (step_v2 (QuestionsChanged [a, b, c]) (mounted True));
             a' = a\<lparr>user_answer := ''[No response]''\<rparr>;
             b' = b\<lparr>user_answer := ''[No response]''\<rparr>;
             c' = c\<lparr>user_answer := ''[No response]''\<rparr>
         in silent_next s = None
          \<and> attempts_log s =
              [(qid a, 1), (qid a, 2), (qid a, 3), (qid b, 1), (qid b, 2), (qid b, 3),
               (qid c, 1), (qid c, 2), (qid c, 3)]
          \<and> userSpoken s =
              [(''[No response]'', [a', b, c]), (''[No response]'', [a', b', c]),
               (''[No response]'', [a', b', c'])]
          \<and> dedupedQuestions s = [a', b', c']
          \<and> agentSpoken s = [agent_question a, agent_question b, agent_question c]"
  using assms
  by (simp add: v2_defs env_defs silent_defs eval_nat_numeral upt_rec nth_append Let_def)

theorem silence_scenario_three_prompts_witness:
  "map fst (userSpoken (silent_run_v2 27
      (step_v2 (QuestionsChanged [prompt ''A'' 1, prompt ''B'' 2, prompt ''C'' 3])
         (mounted True))))
     = [''[No response]'', ''[No response]'', ''[No response]'']
   \<and> map (map user_answer \<circ> snd) (userSpoken (silent_run_v2 27
      (step_v2 (QuestionsChanged [prompt ''A'' 1, prompt ''B'' 2, prompt ''C'' 3])
         (mounted True))))
     = [[''[No response]'', [], []], [''[No response]'', ''[No response]'', []],
        [''[No response]'', ''[No response]'', ''[No response]'']]
   \<and> attempts_log (silent_run_v2 27
      (step_v2 (QuestionsChanged [prompt ''A'' 1, prompt ''B'' 2, prompt ''C'' 3])
         (mounted True)))
     = [(''A'', 1), (''A'', 2), (''A'', 3), (''B'', 1), (''B'', 2), (''B'', 3),
        (''C'', 1), (''C'', 2), (''C'', 3)]"
  using silence_scenario_three_prompts [of "prompt ''A'' 1" "prompt ''B'' 2" "prompt ''C'' 3"]
  by (simp add: prompt_def Let_def)

section \<open>Timers and outcomes of the scripted hooks\<close>

lemmas hd_defs = step_hd_def currentQuestion_effect_hd_def questions_effect_hd_def
  speakAgentQuestion_hd_def utterance_onend_hd_def fire_hd_def onend_hd_def
  onresult_hd_def onerror_hd_def tryListening_hd_def resolve_hd_def finalizeQuestion_def
  maxTimeout_callback_def alreadyAnswered_def MAX_TIMEOUT_TIMER_def run_hd_def
  onaudiostart_def onaudioend_def onnomatch_def

lemmas scenario_defs = listening_hd_def timed_out_hd_def early_end_hd_def answered_hd_def
  third_attempt_v2_def unsupported_hd_def empty_transcript_hd_def capturing_hd_def prompt_def

subsection \<open>What the primitives change\<close>

lemma clearPromptTimer_fields:
  "dedupedQuestions (clearPromptTimer s) = dedupedQuestions s"
  "spokenQuestionIds (clearPromptTimer s) = spokenQuestionIds s"
  "promptTimerRef (clearPromptTimer s) = None"
  "questionMaxTimeoutRef (clearPromptTimer s) = questionMaxTimeoutRef s"
  "questionStartTimeRef (clearPromptTimer s) = questionStartTimeRef s"
  "hasResultRef (clearPromptTimer s) = hasResultRef s"
  "hasNoMatchRef (clearPromptTimer s) = hasNoMatchRef s"
  "audioActiveRef (clearPromptTimer s) = audioActiveRef s"
  "retryHandledRef (clearPromptTimer s) = retryHandledRef s"
  "clock (clearPromptTimer s) = clock s"
  "nextTimer (clearPromptTimer s) = nextTimer s"
  "recognitions (clearPromptTimer s) = recognitions s"
  "synthQueue (clearPromptTimer s) = synthQueue s"
  "userSpoken (clearPromptTimer s) = userSpoken s"
  "agentSpoken (clearPromptTimer s) = agentSpoken s"
  "recognitionSupported (clearPromptTimer s) = recognitionSupported s"
  by (simp_all add: clearPromptTimer_def clearTimeout_def split: option.splits)

lemma clearPromptTimer_timers:
  "timers (clearPromptTimer s) t = (if promptTimerRef s = Some t then None else timers s t)"
  by (simp add: clearPromptTimer_def clearTimeout_def split: option.splits)

lemma finalizeQuestion_fields:
  "dedupedQuestions (finalizeQuestion i s) = dedupedQuestions s"
  "spokenQuestionIds (finalizeQuestion i s) = spokenQuestionIds s"
  "promptTimerRef (finalizeQuestion i s) = None"
  "hasResultRef (finalizeQuestion i s) = hasResultRef s"
  "hasNoMatchRef (finalizeQuestion i s) = hasNoMatchRef s"
  "audioActiveRef (finalizeQuestion i s) = audioActiveRef s"
  "retryHandledRef (finalizeQuestion i s) = retryHandledRef s"
  "clock (finalizeQuestion i s) = clock s"
  "nextTimer (finalizeQuestion i s) = nextTimer s"
  "recognitions (finalizeQuestion i s) = recognitions s"
  "synthQueue (finalizeQuestion i s) = synthQueue s"
  "userSpoken (finalizeQuestion i s) = userSpoken s"
  "agentSpoken (finalizeQuestion i s) = agentSpoken s"
  "recognitionSupported (finalizeQuestion i s) = recognitionSupported s"
  by (simp_all add: finalizeQuestion_def clearTimeout_def clearPromptTimer_fields Let_def
        split: option.splits)

lemma finalizeQuestion_maxTimeout:
  "questionMaxTimeoutRef (finalizeQuestion i s) = AList.delete i (questionMaxTimeoutRef s)"
  by (simp add: finalizeQuestion_def clearTimeout_def clearPromptTimer_fields Let_def delete_id
        map_of_eq_None_iff split: option.splits)

lemma finalizeQuestion_timers:
  "timers (finalizeQuestion i s) t =
     (if map_of (questionMaxTimeoutRef s) i = Some t \<or> promptTimerRef s = Some t
      then None else timers s t)"
  by (simp add: finalizeQuestion_def clearTimeout_def clearPromptTimer_fields
        clearPromptTimer_timers Let_def split: option.splits)

lemma mark_ended_fields:
  "dedupedQuestions (mark_ended h s) = dedupedQuestions s"
  "promptTimerRef (mark_ended h s) = promptTimerRef s"
  "questionMaxTimeoutRef (mark_ended h s) = questionMaxTimeoutRef s"
  "questionStartTimeRef (mark_ended h s) = questionStartTimeRef s"
  "hasResultRef (mark_ended h s) = hasResultRef s"
  "hasNoMatchRef (mark_ended h s) = hasNoMatchRef s"
  "retryHandledRef (mark_ended h s) = retryHandledRef s"
  "clock (mark_ended h s) = clock s"
  "timers (mark_ended h s) = timers s"
  "nextTimer (mark_ended h s) = nextTimer s"
  "userSpoken (mark_ended h s) = userSpoken s"
  "spokenQuestionIds (mark_ended h s) = spokenQuestionIds s"
  "length (recognitions (mark_ended h s)) = length (recognitions s)"
  "h < length (recognitions s) \<Longrightarrow>
     rec_question (recognitions (mark_ended h s) ! h) = rec_question (recognitions s ! h)"
  "h < length (recognitions s) \<Longrightarrow>
     rec_attempt (recognitions (mark_ended h s) ! h) = rec_attempt (recognitions s ! h)"
  "h < length (recognitions s) \<Longrightarrow>
     listeningStartTime (recognitions (mark_ended h s) ! h)
       = listeningStartTime (recognitions s ! h)"
  by (simp_all add: mark_ended_def)

lemmas prim_simps = clearPromptTimer_fields clearPromptTimer_timers finalizeQuestion_fields
  finalizeQuestion_maxTimeout finalizeQuestion_timers mark_ended_fields

subsection \<open>The silence timer\<close>



subsection \<open>The hard deadline\<close>

text \<open>
  Claim C10.  When the hard-deadline timer of a question fires and some entry of the
  list with that id already has a non-empty answer, the question list, the calls of
  \<^verbatim>\<open>onUserSpoken\<close> and \<^verbatim>\<open>onAgentSpoken\<close>, the recognizers, the speech queue and the set
  of spoken ids are unchanged; the deadline registered for the id is removed from
  \<open>questionMaxTimeoutRef\<close>, \<open>promptTimerRef\<close> is cleared, and the only timers disarmed are
  the one that fired, the deadline registered for the id and the silence timer in
  \<open>promptTimerRef\<close>.
\<close>

theorem hard_deadline_after_answer:
  assumes "timers s t = Some (MaxTimeout question, due)"
    and "alreadyAnswered question (dedupedQuestions s)"
  shows "let s' = fire_hd t s in
           dedupedQuestions s' = dedupedQuestions s
         \<and> userSpoken s' = userSpoken s
         \<and> agentSpoken s' = agentSpoken s
         \<and> recognitions s' = recognitions s
         \<and> synthQueue s' = synthQueue s
         \<and> spokenQuestionIds s' = spokenQuestionIds s
         \<and> promptTimerRef s' = None
         \<and> map_of (questionMaxTimeoutRef s') = (map_of (questionMaxTimeoutRef s))(qid question := None)
         \<and> (\<forall>t'. timers s' t' =
               (if t' = t \<or> map_of (questionMaxTimeoutRef s) (qid question) = Some t'
                   \<or> promptTimerRef s = Some t'
                then None else timers s t'))"
  using assms
  by (simp add: fire_hd_def maxTimeout_callback_def prim_simps Let_def delete_conv')

theorem hard_deadline_after_answer_witness:
  "timers answered_hd 1 = Some (MaxTimeout (prompt ''A'' 1), 30000)
   \<and> alreadyAnswered (prompt ''A'' 1) (dedupedQuestions answered_hd)
   \<and> map user_answer (dedupedQuestions (fire_hd 1 answered_hd)) = [''yes'']
   \<and> userSpoken (fire_hd 1 answered_hd) = []
   \<and> armed_timers (fire_hd 1 answered_hd) = []"
  using hard_deadline_after_answer [of answered_hd 1 "prompt ''A'' 1" 30000]
  by (simp add: scenario_defs hd_defs env_defs silent_defs eval_nat_numeral upt_rec Let_def)

lemma speakAgentQuestion_hd_arms:
  "timers (speakAgentQuestion_hd question s) (nextTimer s)
     = Some (MaxTimeout question, clock s + MAX_TIMEOUT_TIMER)
   \<and> map_of (questionMaxTimeoutRef (speakAgentQuestion_hd question s)) (qid question)
     = Some (nextTimer s)"
  by (simp add: speakAgentQuestion_hd_def setTimeout_def synth_speak_def synth_cancel_def
        Let_def update_conv')

lemma answered_with_sets:
  "q \<in> set (answered_with question answer prev) \<Longrightarrow> qid q = qid question \<Longrightarrow>
     user_answer q = answer"
  by (auto simp: answered_with_def)

lemma maxTimeout_fires:
  assumes "timers s t = Some (MaxTimeout question, due)"
    and "\<not> alreadyAnswered question (dedupedQuestions s)"
  shows "dedupedQuestions (fire_hd t s) = answered_with question ''[Timeout]'' (dedupedQuestions s)"
    and "userSpoken (fire_hd t s)
           = userSpoken s @ [(''[Timeout]'', answered_with question ''[Timeout]'' (dedupedQuestions s))]"
    and "promptTimerRef (fire_hd t s) = None"
    and "map_of (questionMaxTimeoutRef (fire_hd t s)) (qid question) = None"
    and "timers (fire_hd t s) t' =
              (if t' = t \<or> map_of (questionMaxTimeoutRef s) (qid question) = Some t'
                  \<or> promptTimerRef s = Some t'
               then None else timers s t')"
    and "recognitions (fire_hd t s) = recognitions s"
  using assms
  by (simp_all add: fire_hd_def maxTimeout_callback_def prim_simps Let_def delete_conv')

text \<open>
  Claim C2, as stated, fails: after the hard deadline has fired for the only prompt
  while its recognizer was capturing audio, \<^verbatim>\<open>stop()\<close> has not been called on that
  recognizer and no timer is left that would call it; a result it delivers afterwards
  replaces the answer \<open>[Timeout]\<close> and is reported by a second call of
  \<^verbatim>\<open>onUserSpoken\<close>.
\<close>

theorem hard_deadline_leaves_recognizer_running:
  "map user_answer (dedupedQuestions timed_out_hd) = [''[Timeout]'']
   \<and> map fst (userSpoken timed_out_hd) = [''[Timeout]'']
   \<and> map stop_called (recognitions timed_out_hd) = [False]
   \<and> armed_timers timed_out_hd = []
   \<and> map user_answer (dedupedQuestions (step_hd (Result 0 ''late'') timed_out_hd)) = [''late'']
   \<and> map fst (userSpoken (step_hd (Result 0 ''late'') timed_out_hd)) = [''[Timeout]'', ''late'']"
  by (simp add: scenario_defs hd_defs env_defs silent_defs eval_nat_numeral upt_rec Let_def)

text \<open>
  Claim C2, amended.  \<^verbatim>\<open>speakAgentQuestion\<close> arms a timer of \<open>MAX_TIMEOUT_TIMER\<close> ms for
  the question and registers it under the question's id.  When that timer fires and no
  entry with the id has an answer yet, every entry with the id gets the answer
  \<open>[Timeout]\<close>, \<^verbatim>\<open>onUserSpoken\<close> is called once with \<open>[Timeout]\<close> and the updated list,
  the registration of the deadline is removed and \<open>promptTimerRef\<close> is cleared; the only
  timers disarmed are the one that fired, the registered deadline and the silence
  timer, and the recognizers are left exactly as they were (none is stopped).
\<close>

theorem hard_deadline_forces_timeout:
  "(let s' = speakAgentQuestion_hd question s in
       timers s' (nextTimer s) = Some (MaxTimeout question, clock s + MAX_TIMEOUT_TIMER)
     \<and> map_of (questionMaxTimeoutRef s') (qid question) = Some (nextTimer s))
   \<and> (timers s t = Some (MaxTimeout question, due)
        \<and> \<not> alreadyAnswered question (dedupedQuestions s) \<longrightarrow>
       (let s' = fire_hd t s in
          dedupedQuestions s' = answered_with question ''[Timeout]'' (dedupedQuestions s)
        \<and> (\<forall>q \<in> set (dedupedQuestions s').
              qid q = qid question \<longrightarrow> user_answer q = ''[Timeout]'')
        \<and> userSpoken s' = userSpoken s @ [(''[Timeout]'', dedupedQuestions s')]
        \<and> promptTimerRef s' = None
        \<and> map_of (questionMaxTimeoutRef s') (qid question) = None
        \<and> (\<forall>t'. timers s' t' =
              (if t' = t \<or> map_of (questionMaxTimeoutRef s) (qid question) = Some t'
                  \<or> promptTimerRef s = Some t'
               then None else timers s t'))
        \<and> recognitions s' = recognitions s))"
  using speakAgentQuestion_hd_arms [of question s]
    answered_with_sets [of _ question "''[Timeout]''" "dedupedQuestions s"]
  by (simp add: maxTimeout_fires Let_def)

theorem hard_deadline_forces_timeout_witness:
  "timers listening_hd 1 = Some (MaxTimeout (prompt ''A'' 1), 30000)
   \<and> \<not> alreadyAnswered (prompt ''A'' 1) (dedupedQuestions listening_hd)
   \<and> map user_answer (dedupedQuestions (fire_hd 1 listening_hd)) = [''[Timeout]'']
   \<and> map fst (userSpoken (fire_hd 1 listening_hd)) = [''[Timeout]'']
   \<and> armed_timers (fire_hd 1 listening_hd) = []
   \<and> map stop_called (recognitions (fire_hd 1 listening_hd)) = [False]"
  using hard_deadline_forces_timeout [of "prompt ''A'' 1" listening_hd 1 30000]
  by (simp add: scenario_defs hd_defs env_defs silent_defs eval_nat_numeral upt_rec Let_def)

subsection \<open>The outcome of the last attempt\<close>












subsection \<open>The silence scenario with hard deadlines\<close>

text \<open>
  The hook with hard deadlines guards its retry with \<^verbatim>\<open>attempt < 1\<close>.  In the
  silence scenario each of three prompts is therefore listened to once: the silence
  timer stops the recognizer after 2000 ms and the turn resolves \<open>[No response]\<close>, in
  the order of the prompts, with one call of \<^verbatim>\<open>onUserSpoken\<close> each.
\<close>

lemma silence_scenario_single_attempt:
  assumes "qid a \<noteq> qid b" "qid a \<noteq> qid c" "qid b \<noteq> qid c"
    and "user_answer a = []" "user_answer b = []" "user_answer c = []"
    and "order a \<le> order b" "order b \<le> order c"
  shows "let s = silent_run_hd 9 (step_hd (QuestionsChanged [a, b, c]) (mounted True));
             a' = a\<lparr>user_answer := ''[No response]''\<rparr>;
             b' = b\<lparr>user_answer := ''[No response]''\<rparr>;
             c' = c\<lparr>user_answer := ''[No response]''\<rparr>
         in silent_next s = None
          \<and> attempts_log s = [(qid a, 1), (qid b, 1), (qid c, 1)]
          \<and> userSpoken s =
              [(''[No response]'', [a', b, c]), (''[No response]'', [a', b', c]),
               (''[No response]'', [a', b', c'])]
          \<and> dedupedQuestions s = [a', b', c']"
  using assms
  by (simp add: hd_defs env_defs silent_defs eval_nat_numeral upt_rec nth_append Let_def)

section \<open>The live-agent hooks\<close>

lemmas live_defs = live_run_def agent_message_def live_fire_def utterance_onend_def
  utterance_onerror_def utterance_onstart_def speech_done_def listen_onend_def
  listen_onerror_def listen_onresult_def listenToUser_def reject_listen_def resolve_listen_def
  listen_fulfilled_def listen_rejected_def onmessage_rejected_def onmessage_fulfilled_def
  tryListening_then_def tryListening_catch_def maxAttempts_def speakText_def
  stop_recognitionRef_def live_recognition_stop_def stop_speech_def live_setTimeout_def
  ws_close_def send_if_open_def ws_open_def connected_def toLowerCase_def trim_def is_space_def






text \<open>
  Claim C9.  In both live-agent units, when the \<^verbatim>\<open>catch\<close> block of the retry loop
  runs with an error other than the string \<open>No speech detected\<close>, or when the failure
  being counted is the third of the loop, no recognizer and no utterance is created
  and no timeout is scheduled; when the channel is open, the message
  \<open>session_ended\<close> with the reason \<open>No speech detected after multiple attempts\<close> is sent
  last and the channel is then closing; when it is not open, nothing is sent.
\<close>

theorem exhausted_retries_end_session:
  assumes "k < length (attempts s)"
    and "\<not> (err = Rejection ''No speech detected'' \<and> Suc (attempts s ! k) < maxAttempts)"
  shows "let s' = tryListening_catch v k err s in
           live_recognitions s' = live_recognitions s
         \<and> utterances s' = utterances s
         \<and> queue s' = queue s
         \<and> timeouts s' = timeouts s
         \<and> (if ws_open s
             then sent s' = sent s @ [SessionEnded ''No speech detected after multiple attempts'']
                \<and> wsRef s' = Some CLOSING
             else sent s' = sent s \<and> wsRef s' = wsRef s)"
  using assms
  by (auto simp: tryListening_catch_def ws_open_def ws_close_def Let_def)


theorem exhausted_retries_end_session_witness:
  "attempts third_silence_live2 = [2]
   \<and> ws_open third_silence_live2
   \<and> map fst (timeouts third_silence_live2) = [RejectNoSpeech 2]
   \<and> length (live_recognitions third_silence_live2) = 3
   \<and> sent (tryListening_catch Live2 0 (Rejection ''No speech detected'') third_silence_live2)
       = [Start, SessionEnded ''No speech detected after multiple attempts'']
   \<and> wsRef (tryListening_catch Live2 0 (Rejection ''No speech detected'') third_silence_live2)
       = Some CLOSING
   \<and> sent (live_step Live2 (Timeout 0) third_silence_live2)
       = [Start, SessionEnded ''No speech detected after multiple attempts'']
   \<and> length (live_recognitions (live_step Live2 (Timeout 0) third_silence_live2)) = 3"
  using exhausted_retries_end_session
    [of 0 third_silence_live2 "Rejection ''No speech detected''" Live2]
  by (simp add: third_silence_live2_def retry_live2_def live_defs Let_def)

text \<open>
  Claim C5 against the code.  First unit, first attempt of the retry loop, channel
  open, agent silent: the transcript \<open>Can you hear me?\<close> is not sent, but it ends the
  session at once (\<open>session_ended\<close> is sent, the channel is closing, no re-prompt is
  spoken), whereas an attempt that really hears nothing (recognizer ends, the rejection
  with \<open>No speech detected\<close> fires) leaves the channel open and speaks the re-prompt.
  Second unit, same situation: the transcript is sent as a \<open>user_message\<close> by the
  result handler and the session is then ended.
\<close>

theorem echo_phrase_ends_session:
  "attempts retry_live1 = [0] \<and> ws_open retry_live1 \<and> \<not> agentIsSpeakingRef retry_live1
   \<and> sent (live_step Live1 (ListenResult 1 ''Can you hear me?'') retry_live1)
       = [Start, SessionEnded ''No speech detected after multiple attempts'']
   \<and> wsRef (live_step Live1 (ListenResult 1 ''Can you hear me?'') retry_live1) = Some CLOSING
   \<and> map lu_words (utterances (live_step Live1 (ListenResult 1 ''Can you hear me?'') retry_live1))
       = [''Hello'']
   \<and> sent (live_run Live1 [ListenEnd 1, Timeout 0] retry_live1) = [Start]
   \<and> wsRef (live_run Live1 [ListenEnd 1, Timeout 0] retry_live1) = Some OPEN
   \<and> map lu_words (utterances (live_run Live1 [ListenEnd 1, Timeout 0] retry_live1))
       = [''Hello'', ''Can you hear me?'']
   \<and> sent (live_step Live2 (ListenResult 0 ''Can you hear me?'') retry_live2)
       = [Start, UserMessage ''Can you hear me?'',
          SessionEnded ''No speech detected after multiple attempts'']"
  by (simp add: retry_live1_def retry_live2_def live_defs Let_def)

section \<open>Every started turn is bounded by its hard deadline\<close>



lemma answered_with_ids [simp]: "qid ` set (answered_with q a ds) = qid ` set ds"
  by (induction ds) (auto simp: answered_with_def)













































lemma resolved_same: "dedupedQuestions s' = dedupedQuestions s \<Longrightarrow> resolved s' i = resolved s i"
  by (simp add: resolved_def)















end
